theory Spec2Isabelle
  imports Complex_Main "HOL-Library.FSet"
begin

section \<open>Data model\<close>

text \<open>
  The catalog is the pandas DataFrame \<open>data\<close>: one row per game, read through the columns
  \<open>'Name'\<close>, \<open>'Tags'\<close> and \<open>'Header image'\<close>. A row is a record, the frame is the list of
  its rows, and a row's label is its position (the default \<open>RangeIndex\<close>, which is what
  makes \<open>sim_matrix[g_idx]\<close> and \<open>data.loc[g_idx, 'Tags']\<close> talk about the same game).
  The tag column holds Python sets, which are finite. Strings are lists of code points
  below 256. Scores are numpy \<open>float64\<close> values, idealised as reals.
\<close>

record game =
  Name :: string
  Tags :: "string fset"
  Header_image :: string

type_synonym dataframe = "game list"

type_synonym ndarray = "real list"

type_synonym matrix = "real list list"

text \<open>The exceptions the modelled lines can raise.\<close>

datatype error = TypeError | IndexError | ValueError

text \<open>One entry of \<open>game_list\<close>: the dict \<open>{"titulo": game_name, "img_url": game_image}\<close>.\<close>

record recommendation =
  titulo :: string
  img_url :: string

text \<open>
  The first component of the returned pair is one of two fixed sentences:
  the "game not found" sentence of line 123, or the "based on the game '\<open>title\<close>' we
  recommend" sentence of line 151, which quotes the resolved title.
\<close>

datatype message = NotFoundMessage | RecommendMessage string

text \<open>
  \<open>process.extractOne\<close> scores the query against each choice with a scorer that returns
  an integer from 0 to 100. The scorer belongs to the \<open>thefuzz\<close> library, not to this
  repository, so it is a parameter of the model.
\<close>

type_synonym scorer = "string \<Rightarrow> string \<Rightarrow> int"

section \<open>jaccard\_similarity (lines 66--78)\<close>

definition jaccard_similarity :: "'a fset \<Rightarrow> 'a fset \<Rightarrow> real" where
  "jaccard_similarity set1 set2 =
     (let intersection = fcard (set1 |\<inter>| set2);
          union = fcard (set1 |\<union>| set2)
      in if union \<noteq> 0 then real intersection / real union else 0)"

section \<open>Title normalisation (line 115)\<close>

text \<open>
  \<open>str.lower\<close> on code points below 256: the ASCII capitals and the Latin-1 capitals
  (192 to 222, without the multiplication sign 215) move up by 32; everything else stays.
\<close>

definition lower_char :: "char \<Rightarrow> char" where
  "lower_char c =
     (let k = (of_char c :: nat)
      in if (65 \<le> k \<and> k \<le> 90) \<or> (192 \<le> k \<and> k \<le> 222 \<and> k \<noteq> 215)
         then char_of (k + 32) else c)"

definition lower :: "string \<Rightarrow> string" where
  "lower s = map lower_char s"

text \<open>\<open>str.isspace\<close> on code points below 256.\<close>

definition isspace :: "char \<Rightarrow> bool" where
  "isspace c =
     (let k = (of_char c :: nat)
      in (9 \<le> k \<and> k \<le> 13) \<or> (28 \<le> k \<and> k \<le> 32) \<or> k = 133 \<or> k = 160)"

definition strip :: "string \<Rightarrow> string" where
  "strip s = rev (dropWhile isspace (rev (dropWhile isspace s)))"

section \<open>correct\_name (lines 80--98)\<close>

text \<open>
  \<open>process.extractOne(query, choices)\<close> returns the pair (choice, score) of the first
  choice with the highest score, and \<open>None\<close> when there is no choice at all.
\<close>

fun extractOne :: "scorer \<Rightarrow> string \<Rightarrow> string list \<Rightarrow> (string \<times> int) option" where
  "extractOne sc query [] = None"
| "extractOne sc query (c # cs) =
     (case extractOne sc query cs of
        None \<Rightarrow> Some (c, sc query c)
      | Some (b, s) \<Rightarrow> if s \<le> sc query c then Some (c, sc query c) else Some (b, s))"

text \<open>
  Line 93 unpacks the result of \<open>extractOne\<close> into two names; unpacking \<open>None\<close> raises
  \<open>TypeError\<close>. The function returns the corrected name or \<open>None\<close>.
\<close>

definition correct_name :: "scorer \<Rightarrow> string \<Rightarrow> dataframe \<Rightarrow> int \<Rightarrow> error + string option" where
  "correct_name sc title data threshold =
     (let game_names = map Name data
      in case extractOne sc title game_names of
           None \<Rightarrow> Inl TypeError
         | Some (best_match, score) \<Rightarrow>
             if threshold \<le> score then Inr (Some best_match) else Inr None)"

section \<open>recommend\_game (lines 100--159)\<close>

subsection \<open>Resolving the title (lines 114--123)\<close>

text \<open>
  The result is the title the rest of the function works with, or \<open>None\<close> where line 123
  returns the not-found pair. \<open>recommend_game\<close> calls \<open>correct_name\<close> with its default
  threshold, 80; the threshold is an argument here so that it can be varied.
  In \<open>if corr_title and ...\<close> a string counts as true when it is not empty.
\<close>

definition resolve_title :: "scorer \<Rightarrow> int \<Rightarrow> string \<Rightarrow> dataframe \<Rightarrow> error + string option" where
  "resolve_title sc threshold raw_title data =
     (let title = strip (lower raw_title)
      in if title \<notin> set (map Name data) then
           (case correct_name sc title data threshold of
              Inl e \<Rightarrow> Inl e
            | Inr None \<Rightarrow> Inr None
            | Inr (Some corr_title) \<Rightarrow>
                if corr_title \<noteq> [] \<and> corr_title \<in> set (map Name data)
                then Inr (Some corr_title) else Inr None)
         else Inr (Some title))"

subsection \<open>The index of the game (line 126)\<close>

text \<open>\<open>data[data['Name'] == title].index[0]\<close>: the first row with that name.\<close>

fun first_index :: "('a \<Rightarrow> bool) \<Rightarrow> 'a list \<Rightarrow> nat option" where
  "first_index P [] = None"
| "first_index P (x # xs) = (if P x then Some 0 else map_option Suc (first_index P xs))"

subsection \<open>Jaccard scores (lines 127--136)\<close>

definition jaccard_scores :: "dataframe \<Rightarrow> nat \<Rightarrow> ndarray" where
  "jaccard_scores data g_idx =
     map (\<lambda>idx. if idx = g_idx then 0
                else jaccard_similarity (Tags (data ! g_idx)) (Tags (data ! idx)))
       [0..<length data]"

subsection \<open>Normalisation by the maximum (lines 139--140 and 144--145)\<close>

text \<open>\<open>np.max\<close> raises \<open>ValueError\<close> on an array without elements.\<close>

fun np_max :: "ndarray \<Rightarrow> error + real" where
  "np_max [] = Inl ValueError"
| "np_max (x # xs) = Inr (fold max xs x)"

text \<open>\<open>if np.max(v) > 0: v /= np.max(v)\<close>, as the new contents of \<open>v\<close>.\<close>

definition divide_by_max :: "ndarray \<Rightarrow> error + ndarray" where
  "divide_by_max v =
     (case np_max v of
        Inl e \<Rightarrow> Inl e
      | Inr m \<Rightarrow> if 0 < m then Inr (map (\<lambda>x. x / m) v) else Inr v)"

subsection \<open>The combined score (line 148)\<close>

text \<open>
  \<open>alpha * cosine_scores + (1 - alpha) * jaccard_scores\<close> with numpy's broadcasting of
  one-dimensional arrays: equal lengths add element by element, an array of length one is
  stretched to the other's length, any other pair of lengths raises \<open>ValueError\<close>.
\<close>

definition final_score :: "real \<Rightarrow> ndarray \<Rightarrow> ndarray \<Rightarrow> error + ndarray" where
  "final_score alpha cosine_scores jaccard =
     (let a = map (\<lambda>x. alpha * x) cosine_scores;
          b = map (\<lambda>y. (1 - alpha) * y) jaccard
      in if length a = length b then Inr (map2 (+) a b)
         else if length a = 1 then Inr (map (\<lambda>y. hd a + y) b)
         else if length b = 1 then Inr (map (\<lambda>x. x + hd b) a)
         else Inl ValueError)"

subsection \<open>Ranking (line 149)\<close>

text \<open>
  \<open>argsort\<close> lists the positions by ascending score. numpy's default sort is not
  stable, so among equal scores the code may return another order than the model, which
  keeps equal scores in position order. No evaluation below ranks equal scores.
\<close>

definition argsort :: "ndarray \<Rightarrow> nat list" where
  "argsort v = sort_key (\<lambda>i. v ! i) [0..<length v]"

text \<open>
  The slice \<open>xs[1:stop]\<close>: a negative stop counts from the end, and both bounds are
  clipped to the length.
\<close>

definition slice_from_1 :: "'a list \<Rightarrow> int \<Rightarrow> 'a list" where
  "slice_from_1 xs stop =
     (let len = int (length xs);
          hi = (if stop < 0 then max (stop + len) 0 else min stop len);
          lo = min 1 len
      in take (nat (hi - lo)) (drop (nat lo) xs))"

definition recomm_idx :: "ndarray \<Rightarrow> int \<Rightarrow> nat list" where
  "recomm_idx fs n_recommendation = slice_from_1 (rev (argsort fs)) (n_recommendation + 1)"

subsection \<open>Building the list (lines 152--157)\<close>

text \<open>\<open>.iloc[idx]\<close> raises \<open>IndexError\<close> for a position beyond the last row.\<close>

fun game_list :: "dataframe \<Rightarrow> nat list \<Rightarrow> error + recommendation list" where
  "game_list data [] = Inr []"
| "game_list data (idx # rest) =
     (if idx < length data then
        (case game_list data rest of
           Inl e \<Rightarrow> Inl e
         | Inr gl \<Rightarrow>
             Inr (\<lparr>titulo = Name (data ! idx), img_url = Header_image (data ! idx)\<rparr> # gl))
      else Inl IndexError)"

subsection \<open>The function\<close>

text \<open>
  Lines 127--159, from the index of the game on. \<open>cosine_scores = sim_matrix[g_idx]\<close> is
  a view of the matrix row, not a copy, so the in-place division of line 145 writes into
  \<open>sim_matrix\<close>; the matrix is therefore part of the result, also when a later line
  raises. \<open>jaccard_scores\<close> is a fresh array.
\<close>

definition rank_games ::
  "string \<Rightarrow> nat \<Rightarrow> dataframe \<Rightarrow> matrix \<Rightarrow> int \<Rightarrow> real
     \<Rightarrow> (error + message \<times> recommendation list) \<times> matrix" where
  "rank_games title g_idx data sim_matrix n_recommendation alpha =
     (case divide_by_max (jaccard_scores data g_idx) of
        Inl e \<Rightarrow> (Inl e, sim_matrix)
      | Inr jaccard \<Rightarrow>
          if g_idx < length sim_matrix then
            (case divide_by_max (sim_matrix ! g_idx) of
               Inl e \<Rightarrow> (Inl e, sim_matrix)
             | Inr cosine_scores \<Rightarrow>
                 (let sim_matrix' = sim_matrix[g_idx := cosine_scores]
                  in case final_score alpha cosine_scores jaccard of
                       Inl e \<Rightarrow> (Inl e, sim_matrix')
                     | Inr fs \<Rightarrow>
                         (case game_list data (recomm_idx fs n_recommendation) of
                            Inl e \<Rightarrow> (Inl e, sim_matrix')
                          | Inr gl \<Rightarrow> (Inr (RecommendMessage title, gl), sim_matrix'))))
          else (Inl IndexError, sim_matrix))"

text \<open>
  The whole call: the returned pair (or the exception), and the similarity matrix as the
  call leaves it.
\<close>

definition recommend_game ::
  "scorer \<Rightarrow> string \<Rightarrow> dataframe \<Rightarrow> matrix \<Rightarrow> int \<Rightarrow> real
     \<Rightarrow> (error + message \<times> recommendation list) \<times> matrix" where
  "recommend_game sc raw_title data sim_matrix n_recommendation alpha =
     (case resolve_title sc 80 raw_title data of
        Inl e \<Rightarrow> (Inl e, sim_matrix)
      | Inr None \<Rightarrow> (Inr (NotFoundMessage, []), sim_matrix)
      | Inr (Some title) \<Rightarrow>
          (case first_index (\<lambda>g. Name g = title) data of
             None \<Rightarrow> (Inl IndexError, sim_matrix)
           | Some g_idx \<Rightarrow> rank_games title g_idx data sim_matrix n_recommendation alpha))"

text \<open>
  The catalog and the matrix are aligned when the matrix is square with one row and one
  column per game.
\<close>

definition aligned :: "dataframe \<Rightarrow> matrix \<Rightarrow> bool" where
  "aligned data sim_matrix \<longleftrightarrow>
     length sim_matrix = length data \<and> list_all (\<lambda>row. length row = length data) sim_matrix"

section \<open>Sample inputs\<close>

text \<open>
  Small catalogs, matrices and scorers on which the functions above are evaluated below.
  Wherever an evaluation below depends on the ranking, the combined scores are pairwise
  different, so the order among equal scores plays no part. \<open>spec_example_catalog\<close> and the first row of
  \<open>spec_example_matrix\<close> are the end-to-end example of the specification (items A, B, C
  under their stored lower-case names); the other two rows complete the matrix
  symmetrically. The scorers stand in for the library's scorer, which is a parameter.
\<close>

definition tagged_catalog :: dataframe where
  "tagged_catalog =
     [\<lparr>Name = ''a'', Tags = {|''x''|}, Header_image = ''a.jpg''\<rparr>,
      \<lparr>Name = ''b'', Tags = {|''x''|}, Header_image = ''b.jpg''\<rparr>,
      \<lparr>Name = ''c'', Tags = {||}, Header_image = ''c.jpg''\<rparr>]"

definition unit_diagonal_matrix :: matrix where
  "unit_diagonal_matrix = [[1, 1/2, 1/4], [1/2, 1, 1/4], [1/4, 1/4, 1]]"

definition doubled_matrix :: matrix where
  "doubled_matrix = [[2, 1, 1/2], [1, 2, 1/2], [1/2, 1/2, 2]]"

definition spec_example_catalog :: dataframe where
  "spec_example_catalog =
     [\<lparr>Name = ''a'', Tags = {|''rpg'', ''fantasy''|}, Header_image = ''a.jpg''\<rparr>,
      \<lparr>Name = ''b'', Tags = {|''rpg'', ''action''|}, Header_image = ''b.jpg''\<rparr>,
      \<lparr>Name = ''c'', Tags = {|''puzzle''|}, Header_image = ''c.jpg''\<rparr>]"

definition spec_example_matrix :: matrix where
  "spec_example_matrix = [[1, 8/10, 1/10], [8/10, 1, 2/10], [1/10, 2/10, 1]]"

definition untagged_catalog :: dataframe where
  "untagged_catalog =
     [\<lparr>Name = ''a'', Tags = {||}, Header_image = ''a.jpg''\<rparr>,
      \<lparr>Name = ''b'', Tags = {||}, Header_image = ''b.jpg''\<rparr>]"

definition zero_matrix :: matrix where
  "zero_matrix = [[0, 0], [0, 0]]"

definition zero_scorer :: scorer where
  "zero_scorer query choice = 0"

definition initial_scorer :: scorer where
  "initial_scorer query choice =
     (if query = [] \<or> choice = [] then 0
      else if query = choice then 100
      else if hd query = hd choice then 90 else 10)"

definition favour_b_scorer :: scorer where
  "favour_b_scorer query choice = (if choice = ''b'' then 100 else 0)"

section \<open>Auxiliary facts\<close>

lemma extractOne_None_iff: "extractOne sc q cs = None \<longleftrightarrow> cs = []"
  by (induction cs) (auto split: option.splits)

lemma extractOne_best:
  "extractOne sc q cs = Some (b, s) \<Longrightarrow>
     b \<in> set cs \<and> s = sc q b \<and> (\<forall>c\<in>set cs. sc q c \<le> s)"
proof (induction cs arbitrary: b s)
  case Nil
  then show ?case by simp
next
  case (Cons c cs)
  show ?case
  proof (cases "extractOne sc q cs")
    case None
    then have "cs = []" by (simp add: extractOne_None_iff)
    with Cons.prems None show ?thesis by auto
  next
    case (Some p)
    obtain b' s' where p: "p = (b', s')" by (cases p)
    from Cons.IH [of b' s'] Some p
    have ih: "b' \<in> set cs" "s' = sc q b'" "\<forall>x\<in>set cs. sc q x \<le> s'" by blast+
    show ?thesis
    proof (cases "s' \<le> sc q c")
      case True
      with Cons.prems Some p have "b = c" "s = sc q c" by auto
      with ih True show ?thesis by fastforce
    next
      case False
      with Cons.prems Some p have "b = b'" "s = s'" by auto
      with ih False show ?thesis by fastforce
    qed
  qed
qed

lemma first_index_Some:
  "first_index P xs = Some i \<Longrightarrow> i < length xs \<and> P (xs ! i) \<and> (\<forall>j<i. \<not> P (xs ! j))"
proof (induction xs arbitrary: i)
  case Nil
  then show ?case by simp
next
  case (Cons x xs)
  show ?case
  proof (cases "P x")
    case True
    with Cons.prems show ?thesis by simp
  next
    case False
    with Cons.prems obtain k where k: "first_index P xs = Some k" "i = Suc k" by auto
    from Cons.IH [OF k(1)] have "k < length xs" "P (xs ! k)" "\<forall>j<k. \<not> P (xs ! j)" by simp_all
    with False k(2) show ?thesis by (auto simp: nth_Cons split: nat.splits)
  qed
qed

lemma first_index_exists: "\<exists>x\<in>set xs. P x \<Longrightarrow> \<exists>i. first_index P xs = Some i"
  by (induction xs) auto

lemma np_max_Max: "v \<noteq> [] \<Longrightarrow> np_max v = Inr (Max (set v))"
proof (cases v)
  case Nil
  assume "v \<noteq> []"
  with Nil show ?thesis by simp
next
  case (Cons x xs)
  have "fold max xs x = Max (set (x # xs))" by (simp only: Max.set_eq_fold)
  with Cons show ?thesis by simp
qed

lemma divide_by_max_length:
  "v \<noteq> [] \<Longrightarrow> \<exists>w. divide_by_max v = Inr w \<and> length w = length v"
  by (simp add: divide_by_max_def np_max_Max)

lemma divide_by_max_all_zero:
  assumes "v \<noteq> []" and "\<forall>x\<in>set v. x = 0"
  shows "divide_by_max v = Inr v"
proof -
  have "Max (set v) \<in> set v" using assms(1) by simp
  then have "Max (set v) = 0" using assms(2) by blast
  then show ?thesis using assms(1) by (simp add: divide_by_max_def np_max_Max)
qed

lemma final_score_same_length:
  "length c = length j \<Longrightarrow>
     final_score alpha c j = Inr (map2 (+) (map (\<lambda>x. alpha * x) c) (map (\<lambda>y. (1 - alpha) * y) j))"
  by (simp add: final_score_def)

lemma set_argsort: "set (argsort v) = {0..<length v}"
  by (simp add: argsort_def)

lemma set_slice_from_1: "set (slice_from_1 xs k) \<subseteq> set xs"
proof -
  have "set (take a (drop b xs)) \<subseteq> set xs" for a b
    using set_take_subset set_drop_subset by fastforce
  then show ?thesis by (simp add: slice_from_1_def Let_def)
qed

lemma recomm_idx_in_range: "i \<in> set (recomm_idx fs n) \<Longrightarrow> i < length fs"
  using set_slice_from_1 [of "rev (argsort fs)" "n + 1"]
  by (auto simp: recomm_idx_def set_argsort)

lemma game_list_in_range:
  "\<forall>i\<in>set idxs. i < length data \<Longrightarrow>
     game_list data idxs =
       Inr (map (\<lambda>i. \<lparr>titulo = Name (data ! i), img_url = Header_image (data ! i)\<rparr>) idxs)"
  by (induction idxs) simp_all

lemma length_jaccard_scores: "length (jaccard_scores data g) = length data"
  by (simp add: jaccard_scores_def)

lemma rank_games_aligned:
  assumes al: "aligned data sim_matrix" and g: "g < length data"
  shows "\<exists>jac cos fs.
           divide_by_max (jaccard_scores data g) = Inr jac \<and> length jac = length data \<and>
           divide_by_max (sim_matrix ! g) = Inr cos \<and> length cos = length data \<and>
           final_score alpha cos jac = Inr fs \<and> length fs = length data \<and>
           (\<forall>i<length data. fs ! i = alpha * cos ! i + (1 - alpha) * jac ! i) \<and>
           rank_games t g data sim_matrix n alpha =
             (Inr (RecommendMessage t,
                   map (\<lambda>i. \<lparr>titulo = Name (data ! i), img_url = Header_image (data ! i)\<rparr>)
                     (recomm_idx fs n)),
              sim_matrix[g := cos])"
proof -
  have ne: "jaccard_scores data g \<noteq> []"
    using g length_jaccard_scores [of data g] by auto
  from divide_by_max_length [OF ne] obtain jac
    where jac: "divide_by_max (jaccard_scores data g) = Inr jac" "length jac = length data"
    by (auto simp: length_jaccard_scores)
  have gm: "g < length sim_matrix" using al g by (simp add: aligned_def)
  have row: "length (sim_matrix ! g) = length data"
    using al gm by (simp add: aligned_def list_all_length)
  then have "sim_matrix ! g \<noteq> []" using g by auto
  from divide_by_max_length [OF this] row obtain cos
    where cos: "divide_by_max (sim_matrix ! g) = Inr cos" "length cos = length data"
    by auto
  define fs where "fs = map2 (+) (map (\<lambda>x. alpha * x) cos) (map (\<lambda>y. (1 - alpha) * y) jac)"
  have fs: "final_score alpha cos jac = Inr fs"
    using final_score_same_length [of cos jac alpha] cos(2) jac(2) by (simp add: fs_def)
  have len: "length fs = length data" using cos(2) jac(2) by (simp add: fs_def)
  have nth: "\<forall>i<length data. fs ! i = alpha * cos ! i + (1 - alpha) * jac ! i"
    using cos(2) jac(2) by (simp add: fs_def)
  have "\<forall>i\<in>set (recomm_idx fs n). i < length data"
    using recomm_idx_in_range [of _ fs n] len by auto
  from game_list_in_range [OF this]
  have "rank_games t g data sim_matrix n alpha =
          (Inr (RecommendMessage t,
                map (\<lambda>i. \<lparr>titulo = Name (data ! i), img_url = Header_image (data ! i)\<rparr>)
                  (recomm_idx fs n)),
           sim_matrix[g := cos])"
    using jac(1) cos(1) fs gm by (simp add: rank_games_def)
  with jac cos fs len nth show ?thesis by blast
qed

lemma resolve_title_no_raise:
  assumes "data \<noteq> []"
  shows "\<exists>r. resolve_title sc threshold raw_title data = Inr r"
proof -
  have "extractOne sc (strip (lower raw_title)) (map Name data) \<noteq> None"
    using assms by (simp add: extractOne_None_iff)
  then show ?thesis
    by (auto simp: resolve_title_def correct_name_def Let_def split: option.splits)
qed

lemma resolve_title_in_names:
  "resolve_title sc threshold raw_title data = Inr (Some t) \<Longrightarrow> t \<in> set (map Name data)"
  by (auto simp: resolve_title_def Let_def split: if_splits sum.splits option.splits)

lemma first_index_name:
  assumes "t \<in> set (map Name data)"
  shows "\<exists>g. first_index (\<lambda>r. Name r = t) data = Some g \<and> g < length data \<and> Name (data ! g) = t"
proof -
  from assms have "\<exists>r\<in>set data. Name r = t" by auto
  from first_index_exists [of data "\<lambda>r. Name r = t", OF this]
  obtain g where g: "first_index (\<lambda>r. Name r = t) data = Some g" by blast
  from first_index_Some [OF g] g show ?thesis by blast
qed

lemma length_argsort: "length (argsort v) = length v"
  by (simp add: argsort_def)

lemma length_recomm_idx:
  assumes "fs \<noteq> []"
  shows "length (recomm_idx fs n) =
           (if - 1 \<le> n then nat (min n (int (length fs) - 1)) else nat (int (length fs) + n))"
proof -
  have "1 \<le> length fs" using assms by (cases fs) simp_all
  then show ?thesis
    by (auto simp: recomm_idx_def slice_from_1_def Let_def length_argsort min_def max_def)
qed

section \<open>Properties of jaccard\_similarity\<close>

text \<open>
  Claim C10. \<open>jaccard_similarity\<close> is commutative: swapping the two sets does not change
  the result.
\<close>

theorem jaccard_similarity_commute:
  "jaccard_similarity s1 s2 = jaccard_similarity s2 s1"
  by (simp add: jaccard_similarity_def inf_commute sup_commute)

text \<open>
  Claim C7. For every pair of tag sets \<open>jaccard_similarity\<close> is the size of the
  intersection over the size of the union, and 0 when the union is empty; two empty sets
  give 0, the sets \<open>{a, b}\<close> and \<open>{b, c}\<close> give one third, and a non-empty set compared
  with itself gives 1.
\<close>

theorem jaccard_similarity_value:
  "jaccard_similarity s1 s2 =
     (if s1 |\<union>| s2 = {||} then 0
      else real (card (fset s1 \<inter> fset s2)) / real (card (fset s1 \<union> fset s2)))
   \<and> jaccard_similarity ({||} :: string fset) {||} = 0
   \<and> jaccard_similarity {|''a'', ''b''|} {|''b'', ''c''|} = 1 / 3
   \<and> (s \<noteq> {||} \<longrightarrow> jaccard_similarity s s = 1)"
proof (intro conjI)
  show "jaccard_similarity s1 s2 =
     (if s1 |\<union>| s2 = {||} then 0
      else real (card (fset s1 \<inter> fset s2)) / real (card (fset s1 \<union> fset s2)))"
    by (simp add: jaccard_similarity_def Let_def fcard.rep_eq)
  show "jaccard_similarity ({||} :: string fset) {||} = 0"
    by (simp add: jaccard_similarity_def Let_def)
  show "jaccard_similarity {|''a'', ''b''|} {|''b'', ''c''|} = 1 / 3"
    by code_simp
  show "s \<noteq> {||} \<longrightarrow> jaccard_similarity s s = 1"
    by (simp add: jaccard_similarity_def Let_def)
qed

text \<open>The last part of C7 at the one-element set \<open>{rpg}\<close>.\<close>

theorem jaccard_similarity_value_witness:
  "{|''rpg''|} \<noteq> {||} \<and> jaccard_similarity {|''rpg''|} {|''rpg''|} = 1"
  using jaccard_similarity_value [of "{||} :: string fset" "{||}" "{|''rpg''|}"] by simp

section \<open>Resolving the title\<close>

text \<open>
  Claim C4. When the lower-cased, stripped title is the name of a row, line 118 skips
  \<open>correct_name\<close> altogether: the title resolves to itself for every threshold and
  every scorer, the index is the first row with that name, and the call continues from
  line 127 with that row. Nothing on the right-hand sides depends on the scorer, so an
  item that would score higher under fuzzy matching cannot change the outcome.
\<close>

theorem exact_match_priority:
  assumes "strip (lower raw_title) \<in> set (map Name data)"
  shows "resolve_title sc threshold raw_title data = Inr (Some (strip (lower raw_title))) \<and>
         (\<exists>g. first_index (\<lambda>r. Name r = strip (lower raw_title)) data = Some g \<and>
              g < length data \<and> Name (data ! g) = strip (lower raw_title) \<and>
              recommend_game sc raw_title data sim_matrix n alpha =
                rank_games (strip (lower raw_title)) g data sim_matrix n alpha)"
proof -
  have r: "resolve_title sc thr raw_title data = Inr (Some (strip (lower raw_title)))" for thr
    using assms by (simp add: resolve_title_def Let_def)
  from first_index_name [OF assms] obtain g
    where g: "first_index (\<lambda>r. Name r = strip (lower raw_title)) data = Some g"
      "g < length data" "Name (data ! g) = strip (lower raw_title)" by blast
  have "recommend_game sc raw_title data sim_matrix n alpha =
          rank_games (strip (lower raw_title)) g data sim_matrix n alpha"
    using r [of 80] g(1) by (simp add: recommend_game_def)
  with r [of threshold] g show ?thesis by blast
qed

text \<open>
  C4 at the title \<open>" A "\<close> with a scorer whose best match is the other game \<open>b\<close>
  (score 100) and with threshold 0: the title still resolves to \<open>a\<close>.
\<close>

theorem exact_match_priority_witness:
  "extractOne favour_b_scorer (strip (lower '' A '')) (map Name tagged_catalog) = Some (''b'', 100) \<and>
   strip (lower '' A '') \<in> set (map Name tagged_catalog) \<and>
   resolve_title favour_b_scorer 0 '' A '' tagged_catalog = Inr (Some ''a'') \<and>
   (\<exists>g. first_index (\<lambda>r. Name r = ''a'') tagged_catalog = Some g \<and>
        recommend_game favour_b_scorer '' A '' tagged_catalog unit_diagonal_matrix 5 (3/10) =
          rank_games ''a'' g tagged_catalog unit_diagonal_matrix 5 (3/10))"
proof -
  have n: "strip (lower '' A '') = ''a''" by code_simp
  have h: "strip (lower '' A '') \<in> set (map Name tagged_catalog)" by code_simp
  have e: "extractOne favour_b_scorer (strip (lower '' A '')) (map Name tagged_catalog) = Some (''b'', 100)"
    by code_simp
  from exact_match_priority [OF h, of favour_b_scorer 0 unit_diagonal_matrix 5 "3/10"] h e
  show ?thesis unfolding n by blast
qed

text \<open>
  Claim C5. Let the normalised title be no row's name and let \<open>extractOne\<close> return the
  pair (best, score), which it does exactly for a catalog with at least one row. Then
  best is a catalog name with the highest score of all names, \<open>correct_name\<close> returns it
  exactly when the score reaches the threshold, and \<open>recommend_game\<close> (threshold 80)
  returns the not-found pair with the empty list, leaving the matrix alone, when the
  score is below 80, and otherwise continues from line 127 with the first row named
  best. Line 120 tests the corrected name for truth, so the second half is stated for a
  non-empty best name; the library's scorer gives an empty name the score 0, which is
  below 80.
\<close>

theorem fuzzy_threshold_gating:
  assumes "strip (lower raw_title) \<notin> set (map Name data)"
      and "extractOne sc (strip (lower raw_title)) (map Name data) = Some (best, score)"
  shows "best \<in> set (map Name data) \<and> score = sc (strip (lower raw_title)) best \<and>
         (\<forall>c\<in>set (map Name data). sc (strip (lower raw_title)) c \<le> score) \<and>
         correct_name sc (strip (lower raw_title)) data threshold =
           Inr (if threshold \<le> score then Some best else None) \<and>
         (score < 80 \<longrightarrow>
            recommend_game sc raw_title data sim_matrix n alpha =
              (Inr (NotFoundMessage, []), sim_matrix)) \<and>
         (80 \<le> score \<and> best \<noteq> [] \<longrightarrow>
            (\<exists>g. first_index (\<lambda>r. Name r = best) data = Some g \<and>
                 g < length data \<and> Name (data ! g) = best \<and>
                 recommend_game sc raw_title data sim_matrix n alpha =
                   rank_games best g data sim_matrix n alpha))"
proof -
  let ?t = "strip (lower raw_title)"
  from extractOne_best [OF assms(2)]
  have b: "best \<in> set (map Name data)" "score = sc ?t best"
    "\<forall>c\<in>set (map Name data). sc ?t c \<le> score" by blast+
  have cn: "correct_name sc ?t data thr = Inr (if thr \<le> score then Some best else None)" for thr
    using assms(2) by (simp add: correct_name_def)
  have low: "recommend_game sc raw_title data sim_matrix n alpha =
               (Inr (NotFoundMessage, []), sim_matrix)" if "score < 80"
    using that assms(1) cn [of 80] by (simp add: recommend_game_def resolve_title_def Let_def)
  have high: "\<exists>g. first_index (\<lambda>r. Name r = best) data = Some g \<and>
                 g < length data \<and> Name (data ! g) = best \<and>
                 recommend_game sc raw_title data sim_matrix n alpha =
                   rank_games best g data sim_matrix n alpha" if "80 \<le> score" "best \<noteq> []"
  proof -
    have "resolve_title sc 80 raw_title data = Inr (Some best)"
      using that assms(1) cn [of 80] b(1) by (simp add: resolve_title_def Let_def)
    moreover from first_index_name [OF b(1)] obtain g
      where g: "first_index (\<lambda>r. Name r = best) data = Some g"
        "g < length data" "Name (data ! g) = best" by blast
    ultimately have "recommend_game sc raw_title data sim_matrix n alpha =
                       rank_games best g data sim_matrix n alpha"
      by (simp add: recommend_game_def)
    with g show ?thesis by blast
  qed
  from b cn [of threshold] low high show ?thesis by blast
qed

text \<open>
  C5 on both sides of the threshold: the title \<open>Zz\<close> scores 10 at best and is not
  found; the title \<open>Bx\<close> scores 90 against \<open>b\<close> and resolves to it.
\<close>

theorem fuzzy_threshold_gating_witness:
  "(strip (lower ''Zz'') \<notin> set (map Name tagged_catalog) \<and>
    extractOne initial_scorer (strip (lower ''Zz'')) (map Name tagged_catalog) = Some (''a'', 10) \<and>
    (10::int) < 80 \<and>
    recommend_game initial_scorer ''Zz'' tagged_catalog unit_diagonal_matrix 5 (3/10) =
      (Inr (NotFoundMessage, []), unit_diagonal_matrix)) \<and>
   (strip (lower ''Bx'') \<notin> set (map Name tagged_catalog) \<and>
    extractOne initial_scorer (strip (lower ''Bx'')) (map Name tagged_catalog) = Some (''b'', 90) \<and>
    (80::int) \<le> 90 \<and> ''b'' \<noteq> [] \<and>
    (\<exists>g. first_index (\<lambda>r. Name r = ''b'') tagged_catalog = Some g \<and>
         g < length tagged_catalog \<and> Name (tagged_catalog ! g) = ''b'' \<and>
         recommend_game initial_scorer ''Bx'' tagged_catalog unit_diagonal_matrix 5 (3/10) =
           rank_games ''b'' g tagged_catalog unit_diagonal_matrix 5 (3/10)))"
proof -
  have z1: "strip (lower ''Zz'') \<notin> set (map Name tagged_catalog)" by code_simp
  have z2: "extractOne initial_scorer (strip (lower ''Zz'')) (map Name tagged_catalog) = Some (''a'', 10)"
    by code_simp
  have b1: "strip (lower ''Bx'') \<notin> set (map Name tagged_catalog)" by code_simp
  have b2: "extractOne initial_scorer (strip (lower ''Bx'')) (map Name tagged_catalog) = Some (''b'', 90)"
    by code_simp
  from fuzzy_threshold_gating [OF z1 z2, of 80 unit_diagonal_matrix 5 "3/10"]
       fuzzy_threshold_gating [OF b1 b2, of 80 unit_diagonal_matrix 5 "3/10"] z1 z2 b1 b2
  show ?thesis by simp
qed

text \<open>
  Claim C9. On a catalog without rows the title is in no row, \<open>correct_name\<close> is called,
  \<open>extractOne\<close> has no choice to return, and unpacking its \<open>None\<close> on line 93 raises
  \<open>TypeError\<close>: the call ends in an exception, not in the not-found pair.
\<close>

theorem empty_catalog_raises:
  "correct_name sc title [] threshold = Inl TypeError \<and>
   recommend_game sc raw_title [] sim_matrix n alpha = (Inl TypeError, sim_matrix)"
  by (simp add: correct_name_def recommend_game_def resolve_title_def Let_def)

section \<open>Ranking\<close>

text \<open>
  Claim C1. With the default \<open>n_recommendation = 5\<close> and \<open>alpha = 0.3\<close>, the query \<open>a\<close>
  has the combined scores 0.3 for itself (its own Jaccard score is forced to 0), 0.85
  for \<open>b\<close> and 0.075 for \<open>c\<close>. The descending order is b, a, c; the slice of line 149
  drops the first position, which is \<open>b\<close>, and the query itself is returned.
\<close>

theorem query_item_recommended:
  "fst (recommend_game zero_scorer ''a'' tagged_catalog unit_diagonal_matrix 5 (3/10)) =
     Inr (RecommendMessage ''a'',
          [\<lparr>titulo = ''a'', img_url = ''a.jpg''\<rparr>, \<lparr>titulo = ''c'', img_url = ''c.jpg''\<rparr>])"
  by code_simp

text \<open>
  Claim C2. Line 143 takes a view of the matrix row and line 145 divides it in place:
  after a call for the game \<open>a\<close> on a matrix whose first row has the maximum 2, that row
  of the caller's matrix holds the divided values.
\<close>

theorem similarity_row_overwritten:
  "snd (recommend_game zero_scorer ''a'' tagged_catalog doubled_matrix 5 (3/10)) =
     [[1, 1/2, 1/4], [1, 2, 1/2], [1/2, 1/2, 2]] \<and>
   snd (recommend_game zero_scorer ''a'' tagged_catalog doubled_matrix 5 (3/10)) \<noteq>
     doubled_matrix"
  by code_simp

text \<open>
  Claim C3. On the end-to-end example of the specification (query A, \<open>n = 2\<close>,
  \<open>alpha = 0.3\<close>) the normalised Jaccard scores are 0, 1, 0 and the combined scores are
  0.3 for A, 0.94 for B and 0.03 for C. The two best items other than the query are B
  and C, in that order; the call returns A and C.
\<close>

theorem best_item_dropped:
  "divide_by_max (jaccard_scores spec_example_catalog 0) = Inr [0, 1, 0] \<and>
   final_score (3/10) (spec_example_matrix ! 0) [0, 1, 0] = Inr [3/10, 47/50, 3/100] \<and>
   fst (recommend_game zero_scorer ''A'' spec_example_catalog spec_example_matrix 2 (3/10)) =
     Inr (RecommendMessage ''a'',
          [\<lparr>titulo = ''a'', img_url = ''a.jpg''\<rparr>, \<lparr>titulo = ''c'', img_url = ''c.jpg''\<rparr>])"
  by code_simp

text \<open>
  Claim C8. For a catalog aligned with the matrix and a title that resolves to the row
  \<open>g\<close>: both normalisations return; a Jaccard vector that is zero throughout is left as
  it is, and so is a matrix row that is zero throughout; the combined score of every
  item is \<open>alpha\<close> times its (possibly unnormalised) matrix entry plus \<open>1 - alpha\<close> times
  its (possibly unnormalised) Jaccard score; and the call returns a list, built from
  these scores, without raising.
\<close>

theorem degenerate_normalization_skipped:
  assumes "aligned data sim_matrix"
      and "resolve_title sc 80 raw_title data = Inr (Some t)"
      and "first_index (\<lambda>r. Name r = t) data = Some g"
  shows "\<exists>jac cos fs.
           divide_by_max (jaccard_scores data g) = Inr jac \<and>
           ((\<forall>x\<in>set (jaccard_scores data g). x = 0) \<longrightarrow> jac = jaccard_scores data g) \<and>
           divide_by_max (sim_matrix ! g) = Inr cos \<and>
           ((\<forall>x\<in>set (sim_matrix ! g). x = 0) \<longrightarrow> cos = sim_matrix ! g) \<and>
           final_score alpha cos jac = Inr fs \<and> length fs = length data \<and>
           (\<forall>i<length data. fs ! i = alpha * cos ! i + (1 - alpha) * jac ! i) \<and>
           recommend_game sc raw_title data sim_matrix n alpha =
             (Inr (RecommendMessage t,
                   map (\<lambda>i. \<lparr>titulo = Name (data ! i), img_url = Header_image (data ! i)\<rparr>)
                     (recomm_idx fs n)),
              sim_matrix[g := cos])"
proof -
  from first_index_Some [OF assms(3)] have g: "g < length data" by blast
  from rank_games_aligned [OF assms(1) g, of alpha t n] obtain jac cos fs
    where f: "divide_by_max (jaccard_scores data g) = Inr jac"
      "divide_by_max (sim_matrix ! g) = Inr cos"
      "final_score alpha cos jac = Inr fs" "length fs = length data"
      "\<forall>i<length data. fs ! i = alpha * cos ! i + (1 - alpha) * jac ! i"
      "rank_games t g data sim_matrix n alpha =
         (Inr (RecommendMessage t,
               map (\<lambda>i. \<lparr>titulo = Name (data ! i), img_url = Header_image (data ! i)\<rparr>)
                 (recomm_idx fs n)),
          sim_matrix[g := cos])"
    by blast
  have jne: "jaccard_scores data g \<noteq> []"
    using g length_jaccard_scores [of data g] by auto
  have rne: "sim_matrix ! g \<noteq> []"
    using assms(1) g by (auto simp: aligned_def list_all_length)
  have j0: "jac = jaccard_scores data g" if "\<forall>x\<in>set (jaccard_scores data g). x = 0"
    using divide_by_max_all_zero [OF jne that] f(1) by simp
  have c0: "cos = sim_matrix ! g" if "\<forall>x\<in>set (sim_matrix ! g). x = 0"
    using divide_by_max_all_zero [OF rne that] f(2) by simp
  have "recommend_game sc raw_title data sim_matrix n alpha =
          rank_games t g data sim_matrix n alpha"
    using assms(2,3) by (simp add: recommend_game_def)
  with f(6) have rg: "recommend_game sc raw_title data sim_matrix n alpha =
         (Inr (RecommendMessage t,
               map (\<lambda>i. \<lparr>titulo = Name (data ! i), img_url = Header_image (data ! i)\<rparr>)
                 (recomm_idx fs n)),
          sim_matrix[g := cos])"
    by simp
  show ?thesis
    apply (rule exI [of _ jac])
    apply (rule exI [of _ cos])
    apply (rule exI [of _ fs])
    using f(1-5) j0 c0 rg apply blast
    done
qed

text \<open>
  C8 on two games without tags and a matrix of zeros: both vectors are zero throughout
  and both are kept.
\<close>

theorem degenerate_normalization_skipped_witness:
  "aligned untagged_catalog zero_matrix \<and>
   resolve_title zero_scorer 80 ''a'' untagged_catalog = Inr (Some ''a'') \<and>
   first_index (\<lambda>r. Name r = ''a'') untagged_catalog = Some 0 \<and>
   jaccard_scores untagged_catalog 0 = [0, 0] \<and>
   zero_matrix ! 0 = [0, 0] \<and>
   (\<exists>fs. final_score (1/2) (zero_matrix ! 0) (jaccard_scores untagged_catalog 0) = Inr fs \<and>
         length fs = length untagged_catalog \<and>
         recommend_game zero_scorer ''a'' untagged_catalog zero_matrix 1 (1/2) =
           (Inr (RecommendMessage ''a'',
                 map (\<lambda>i. \<lparr>titulo = Name (untagged_catalog ! i),
                              img_url = Header_image (untagged_catalog ! i)\<rparr>)
                   (recomm_idx fs 1)),
            zero_matrix[0 := zero_matrix ! 0]))"
proof -
  have a: "aligned untagged_catalog zero_matrix" by code_simp
  have r: "resolve_title zero_scorer 80 ''a'' untagged_catalog = Inr (Some ''a'')" by code_simp
  have f: "first_index (\<lambda>r. Name r = ''a'') untagged_catalog = Some 0" by code_simp
  have je: "jaccard_scores untagged_catalog 0 = [0, 0]" by code_simp
  have ze: "zero_matrix ! 0 = [0, 0]" by code_simp
  have j: "\<forall>x\<in>set (jaccard_scores untagged_catalog 0). x = 0" by (simp add: je)
  have z: "\<forall>x\<in>set (zero_matrix ! 0). x = 0" by (simp add: ze)
  from degenerate_normalization_skipped [OF a r f, of "1/2" 1] j z
  obtain jac cos fs where
    "jac = jaccard_scores untagged_catalog 0" "cos = zero_matrix ! 0"
    "final_score (1/2) cos jac = Inr fs" "length fs = length untagged_catalog"
    "recommend_game zero_scorer ''a'' untagged_catalog zero_matrix 1 (1/2) =
       (Inr (RecommendMessage ''a'',
             map (\<lambda>i. \<lparr>titulo = Name (untagged_catalog ! i),
                          img_url = Header_image (untagged_catalog ! i)\<rparr>)
               (recomm_idx fs 1)),
        zero_matrix[0 := cos])"
    by blast
  with a r f je ze show ?thesis by blast
qed

section \<open>Arguments outside the documented ranges\<close>

text \<open>
  Claim C6, as the code has it. \<open>recommend_game\<close> checks neither \<open>n_recommendation\<close> nor
  \<open>alpha\<close> and adjusts neither: on a catalog with at least one row that is aligned with
  the matrix the call never raises, for every \<open>n_recommendation\<close> and every \<open>alpha\<close>,
  also for \<open>n_recommendation < 1\<close> and for \<open>alpha\<close> outside the unit interval. Either
  the title does not resolve and the not-found pair is returned, or the title resolves
  to a row \<open>g\<close> and the result is computed from the arguments as they were passed: every
  combined score is \<open>alpha\<close> times the matrix entry plus \<open>1 - alpha\<close> times the Jaccard
  score with the caller's \<open>alpha\<close>, and the list is the slice \<open>[1 : n_recommendation + 1]\<close>
  of the descending ranking with the caller's \<open>n_recommendation\<close>. With \<open>N\<close> rows the list
  has \<open>min n (N - 1)\<close> entries for \<open>n \<ge> -1\<close> (none when that is not positive) and
  \<open>N + n\<close> entries for \<open>n < -1\<close> (none when that is not positive); for
  \<open>n_recommendation = 0\<close> it is empty.
\<close>

theorem no_argument_validation:
  assumes "aligned data sim_matrix" and "data \<noteq> []"
  shows "(resolve_title sc 80 raw_title data = Inr None \<and>
          recommend_game sc raw_title data sim_matrix n alpha =
            (Inr (NotFoundMessage, []), sim_matrix)) \<or>
         (\<exists>t g jac cos fs.
            resolve_title sc 80 raw_title data = Inr (Some t) \<and>
            first_index (\<lambda>r. Name r = t) data = Some g \<and>
            divide_by_max (jaccard_scores data g) = Inr jac \<and>
            divide_by_max (sim_matrix ! g) = Inr cos \<and>
            final_score alpha cos jac = Inr fs \<and> length fs = length data \<and>
            (\<forall>i<length data. fs ! i = alpha * cos ! i + (1 - alpha) * jac ! i) \<and>
            recommend_game sc raw_title data sim_matrix n alpha =
              (Inr (RecommendMessage t,
                    map (\<lambda>i. \<lparr>titulo = Name (data ! i), img_url = Header_image (data ! i)\<rparr>)
                      (slice_from_1 (rev (argsort fs)) (n + 1))),
               sim_matrix[g := cos]) \<and>
            length (slice_from_1 (rev (argsort fs)) (n + 1)) =
              (if - 1 \<le> n then nat (min n (int (length data) - 1))
               else nat (int (length data) + n)) \<and>
            (n = 0 \<longrightarrow>
               recommend_game sc raw_title data sim_matrix n alpha =
                 (Inr (RecommendMessage t, []), sim_matrix[g := cos])))"
proof -
  from resolve_title_no_raise [OF assms(2)] obtain r
    where r: "resolve_title sc 80 raw_title data = Inr r" by blast
  show ?thesis
  proof (cases r)
    case None
    with r have "recommend_game sc raw_title data sim_matrix n alpha =
                   (Inr (NotFoundMessage, []), sim_matrix)"
      by (simp add: recommend_game_def)
    with r None show ?thesis by simp
  next
    case (Some t)
    with r have rt: "resolve_title sc 80 raw_title data = Inr (Some t)" by simp
    then have "t \<in> set (map Name data)" using resolve_title_in_names by blast
    from first_index_name [OF this] obtain g
      where g: "first_index (\<lambda>r. Name r = t) data = Some g" "g < length data" by blast
    from rank_games_aligned [OF assms(1) g(2), of alpha t n] obtain jac cos fs
      where f: "divide_by_max (jaccard_scores data g) = Inr jac"
        "divide_by_max (sim_matrix ! g) = Inr cos"
        "final_score alpha cos jac = Inr fs" "length fs = length data"
        "\<forall>i<length data. fs ! i = alpha * cos ! i + (1 - alpha) * jac ! i"
        "rank_games t g data sim_matrix n alpha =
           (Inr (RecommendMessage t,
                 map (\<lambda>i. \<lparr>titulo = Name (data ! i), img_url = Header_image (data ! i)\<rparr>)
                   (recomm_idx fs n)),
            sim_matrix[g := cos])"
      by blast
    have rg: "recommend_game sc raw_title data sim_matrix n alpha =
          (Inr (RecommendMessage t,
                map (\<lambda>i. \<lparr>titulo = Name (data ! i), img_url = Header_image (data ! i)\<rparr>)
                  (slice_from_1 (rev (argsort fs)) (n + 1))),
           sim_matrix[g := cos])"
      using rt g(1) f(6) by (simp add: recommend_game_def recomm_idx_def)
    have "fs \<noteq> []" using f(4) assms(2) by auto
    from length_recomm_idx [OF this, of n]
    have len: "length (slice_from_1 (rev (argsort fs)) (n + 1)) =
              (if - 1 \<le> n then nat (min n (int (length data) - 1))
               else nat (int (length data) + n))"
      by (simp add: recomm_idx_def f(4))
    have zero: "recommend_game sc raw_title data sim_matrix n alpha =
                 (Inr (RecommendMessage t, []), sim_matrix[g := cos])" if "n = 0"
    proof -
      from len that have "slice_from_1 (rev (argsort fs)) (n + 1) = []" by simp
      with rg show ?thesis by simp
    qed
    show ?thesis
      apply (rule disjI2)
      apply (rule exI [of _ t])
      apply (rule exI [of _ g])
      apply (rule exI [of _ jac])
      apply (rule exI [of _ cos])
      apply (rule exI [of _ fs])
      using rt g(1) f(1-5) rg len zero apply blast
      done
  qed
qed

text \<open>
  C6 as amended, at \<open>n_recommendation = -2\<close> and \<open>alpha = 2\<close> on three rows: the call
  returns a list with \<open>3 - 2 = 1\<close> entry.
\<close>

theorem no_argument_validation_witness:
  "aligned tagged_catalog unit_diagonal_matrix \<and> tagged_catalog \<noteq> [] \<and>
   resolve_title zero_scorer 80 ''a'' tagged_catalog = Inr (Some ''a'') \<and>
   (\<exists>g jac cos fs.
      first_index (\<lambda>r. Name r = ''a'') tagged_catalog = Some g \<and>
      divide_by_max (jaccard_scores tagged_catalog g) = Inr jac \<and>
      divide_by_max (unit_diagonal_matrix ! g) = Inr cos \<and>
      final_score 2 cos jac = Inr fs \<and>
      recommend_game zero_scorer ''a'' tagged_catalog unit_diagonal_matrix (- 2) 2 =
        (Inr (RecommendMessage ''a'',
              map (\<lambda>i. \<lparr>titulo = Name (tagged_catalog ! i),
                           img_url = Header_image (tagged_catalog ! i)\<rparr>)
                (slice_from_1 (rev (argsort fs)) (- 2 + 1))),
         unit_diagonal_matrix[g := cos]) \<and>
      length (slice_from_1 (rev (argsort fs)) (- 2 + 1)) = 1)"
proof -
  have a: "aligned tagged_catalog unit_diagonal_matrix" by code_simp
  have b: "tagged_catalog \<noteq> []" by code_simp
  have r: "resolve_title zero_scorer 80 ''a'' tagged_catalog = Inr (Some ''a'')" by code_simp
  have l: "length tagged_catalog = 3" by code_simp
  from no_argument_validation [OF a b, of zero_scorer "''a''" "- 2" 2] r
  obtain g jac cos fs where
    "first_index (\<lambda>r. Name r = ''a'') tagged_catalog = Some g"
    "divide_by_max (jaccard_scores tagged_catalog g) = Inr jac"
    "divide_by_max (unit_diagonal_matrix ! g) = Inr cos"
    "final_score 2 cos jac = Inr fs"
    "recommend_game zero_scorer ''a'' tagged_catalog unit_diagonal_matrix (- 2) 2 =
        (Inr (RecommendMessage ''a'',
              map (\<lambda>i. \<lparr>titulo = Name (tagged_catalog ! i),
                           img_url = Header_image (tagged_catalog ! i)\<rparr>)
                (slice_from_1 (rev (argsort fs)) (- 2 + 1))),
         unit_diagonal_matrix[g := cos])"
    "length (slice_from_1 (rev (argsort fs)) (- 2 + 1)) =
       (if - 1 \<le> (- 2 :: int) then nat (min (- 2) (int (length tagged_catalog) - 1))
        else nat (int (length tagged_catalog) + (- 2)))"
    by auto
  with a b r l show ?thesis by auto
qed

text \<open>
  Against C6 as stated: with \<open>n_recommendation = 0\<close> and \<open>alpha = 2\<close> the call returns
  the recommendation message with an empty list; nothing is rejected.
\<close>

theorem invalid_arguments_accepted:
  "fst (recommend_game zero_scorer ''a'' tagged_catalog unit_diagonal_matrix 0 2) =
     Inr (RecommendMessage ''a'', [])"
  by code_simp

end
